theory Spec2Isabelle
  imports Main
begin

section \<open>The electron-vite configuration of the desktop application\<close>

text \<open>
  The source file \<^verbatim>\<open>electron.vite.config.ts\<close> builds one configuration object with three
  members: \<^verbatim>\<open>main\<close> (the host process), \<^verbatim>\<open>preload\<close> (the bridge) and \<^verbatim>\<open>renderer\<close> (the UI).
  The object depends on three things outside the file: the process environment, the
  dependency table of \<^verbatim>\<open>package.json\<close>, and the path functions of Node
  (\<^verbatim>\<open>resolve\<close> and \<^verbatim>\<open>__dirname\<close>). The model takes all of them as arguments.
\<close>

subsection \<open>JavaScript values used by the file\<close>

text \<open>
  \<^verbatim>\<open>process.env\<close>: a variable is either absent (\<open>None\<close>) or a string.
\<close>

type_synonym env = "string \<rightharpoonup> string"

text \<open>
  The condition of \<^verbatim>\<open>process.env[k] ? a : b\<close>: \<^verbatim>\<open>undefined\<close> and the empty string
  are falsy, every other string is truthy.
\<close>

fun truthy :: "string option \<Rightarrow> bool" where
  "truthy None = False"
| "truthy (Some s) = (s \<noteq> [])"

text \<open>
  \<^verbatim>\<open>String.prototype.toUpperCase\<close> on the ASCII range: the letters a to z (codes 97 to
  122) move down by 32, every other ASCII character stays. The two call sites pass
  \<^verbatim>\<open>'main'\<close> and \<^verbatim>\<open>'renderer'\<close>.
\<close>

definition toUpperCase_char :: "char \<Rightarrow> char" where
  "toUpperCase_char c =
     (if 97 \<le> (of_char c :: nat) \<and> (of_char c :: nat) \<le> 122
      then char_of ((of_char c :: nat) - 32) else c)"

definition toUpperCase :: "string \<Rightarrow> string" where
  "toUpperCase s = map toUpperCase_char s"

text \<open>
  An object literal \<^verbatim>\<open>{ k1: v1, k2: v2, ... }\<close> defines its properties from left to
  right, and the object is kept as the list of its properties in enumeration order. The
  functions below cover the keys the file writes: strings that are neither integer
  indices (which enumerate first, in numeric order) nor \<^verbatim>\<open>__proto__\<close> (which sets
  the prototype). They are applied to the literals of the file only, whose keys are
  pairwise different, so that each literal yields its properties as written.
\<close>

fun defineProperty :: "(string \<times> 'v) list \<Rightarrow> string \<Rightarrow> 'v \<Rightarrow> (string \<times> 'v) list" where
  "defineProperty [] k v = [(k, v)]"
| "defineProperty ((k', v') # ps) k v =
     (if k' = k then (k', v) # ps else (k', v') # defineProperty ps k v)"

fun defineProperties :: "(string \<times> 'v) list \<Rightarrow> (string \<times> 'v) list \<Rightarrow> (string \<times> 'v) list" where
  "defineProperties obj [] = obj"
| "defineProperties obj ((k, v) # kvs) = defineProperties (defineProperty obj k v) kvs"

definition objectLiteral :: "(string \<times> 'v) list \<Rightarrow> (string \<times> 'v) list" where
  "objectLiteral kvs = defineProperties [] kvs"

text \<open>\<^verbatim>\<open>Object.keys\<close>: the keys in enumeration order.\<close>

definition Object_keys :: "(string \<times> 'v) list \<Rightarrow> string list" where
  "Object_keys obj = map fst obj"

subsection \<open>Plugins\<close>

text \<open>
  The plugin factories are imported packages; a plugin is kept as the factory's name with
  the options the file passes. The UI's first plugin is the promise of an
  \<^verbatim>\<open>async\<close> function that imports \<^verbatim>\<open>@tailwindcss/vite\<close> and calls its default export.
\<close>

datatype plugin =
    visualizer bool
  | react bool
  | CodeInspectorPlugin string
  | tailwindcss

datatype plugin_option = Plugin plugin | Promise plugin

fun isCodeInspector :: "plugin_option \<Rightarrow> bool" where
  "isCodeInspector (Plugin (CodeInspectorPlugin b)) = True"
| "isCodeInspector (Promise (CodeInspectorPlugin b)) = True"
| "isCodeInspector p = False"

subsection \<open>The shape of the configuration\<close>

text \<open>
  The records follow the option objects of the bundler. A key that a literal of the file
  does not write is \<open>None\<close>.
\<close>

record rollup_warning =
  code :: "string option"
  message :: string

record output_options =
  manualChunks :: "string list option"
  inlineDynamicImports :: bool

record rollup_options =
  external :: "string list option"
  rollup_output :: "output_options option"
  input :: "(string \<times> string) list option"
  onwarn :: "rollup_warning \<Rightarrow> rollup_warning option"

record build_options =
  target :: "string option"
  rollupOptions :: "rollup_options option"
  sourcemap :: "bool option"

record esbuild_options =
  legalComments :: "string option"

record dep_esbuild_options =
  esbuild_target :: string

record optimize_deps =
  noDiscovery :: "bool option"
  exclude :: "string list option"
  esbuildOptions :: "dep_esbuild_options option"

record worker_options =
  format :: string

record resolve_options =
  alias_map :: "(string \<times> string) list"

record user_config =
  plugins :: "plugin_option list"
  resolve :: resolve_options
  build :: build_options
  esbuild :: "esbuild_options option"
  optimizeDeps :: "optimize_deps option"
  worker :: "worker_options option"

record electron_vite_config =
  main :: user_config
  preload :: user_config
  renderer :: user_config

text \<open>
  \<^verbatim>\<open>package.json\<close> is imported as a module; the file reads only the
  \<^verbatim>\<open>dependencies\<close> object (package name to version range).
\<close>

record package_json =
  dependencies :: "(string \<times> string) list"

subsection \<open>The file, top to bottom\<close>

text \<open>
  \<^verbatim>\<open>visualizerPlugin\<close> (lines 12 to 14): the variable \<^verbatim>\<open>VISUALIZER_<TYPE>\<close> decides
  between the one-element list and the empty list.
\<close>

definition visualizerPlugin :: "env \<Rightarrow> string \<Rightarrow> plugin_option list" where
  "visualizerPlugin env type =
     (if truthy (env (''VISUALIZER_'' @ toUpperCase type))
      then [Plugin (visualizer True)] else [])"

text \<open>Lines 16 and 17.\<close>

definition isDev :: "env \<Rightarrow> bool" where
  "isDev env = (env ''NODE_ENV'' = Some ''development'')"

definition isProd :: "env \<Rightarrow> bool" where
  "isProd env = (env ''NODE_ENV'' = Some ''production'')"

text \<open>
  The warning handler written twice in the file (lines 52 to 55 and 137 to 140): the
  result is the warning handed on to \<^verbatim>\<open>warn\<close>, if any.
\<close>

definition onwarn_body :: "rollup_warning \<Rightarrow> rollup_warning option" where
  "onwarn_body warning =
     (if code warning = Some ''COMMONJS_VARIABLE_IN_ESM'' then None else Some warning)"

text \<open>
  The three members. \<open>path_resolve\<close> stands for \<^verbatim>\<open>resolve\<close> of Node's
  \<^verbatim>\<open>path\<close> module, applied to the list of its arguments; \<open>dirname\<close> stands for
  \<^verbatim>\<open>__dirname\<close>.
\<close>

definition main_config ::
  "env \<Rightarrow> package_json \<Rightarrow> (string list \<Rightarrow> string) \<Rightarrow> user_config" where
  "main_config env pkg path_resolve =
     \<lparr> plugins = visualizerPlugin env ''main'',
       resolve = \<lparr> alias_map = objectLiteral
         [ (''@main'', path_resolve [''src/main'']),
           (''@types'', path_resolve [''src/renderer/src/types'']),
           (''@shared'', path_resolve [''packages/shared'']),
           (''@logger'', path_resolve [''src/main/services/LoggerService'']),
           (''@mcp-trace/trace-core'', path_resolve [''packages/mcp-trace/trace-core'']),
           (''@mcp-trace/trace-node'', path_resolve [''packages/mcp-trace/trace-node'']) ] \<rparr>,
       build = \<lparr>
         target = None,
         rollupOptions = Some \<lparr>
           external = Some ([''bufferutil'', ''utf-8-validate'', ''electron'']
                            @ Object_keys (dependencies pkg)),
           rollup_output = Some \<lparr> manualChunks = None, inlineDynamicImports = True \<rparr>,
           input = None,
           onwarn = onwarn_body \<rparr>,
         sourcemap = Some (isDev env) \<rparr>,
       esbuild = Some (if isProd env then \<lparr> legalComments = Some ''none'' \<rparr>
                       else \<lparr> legalComments = None \<rparr>),
       optimizeDeps = Some \<lparr> noDiscovery = Some (isDev env), exclude = None,
                              esbuildOptions = None \<rparr>,
       worker = None \<rparr>"

definition preload_config :: "env \<Rightarrow> (string list \<Rightarrow> string) \<Rightarrow> user_config" where
  "preload_config env path_resolve =
     \<lparr> plugins = [Plugin (react True)],
       resolve = \<lparr> alias_map = objectLiteral
         [ (''@shared'', path_resolve [''packages/shared'']),
           (''@mcp-trace/trace-core'', path_resolve [''packages/mcp-trace/trace-core'']) ] \<rparr>,
       build = \<lparr> target = None, rollupOptions = None, sourcemap = Some (isDev env) \<rparr>,
       esbuild = None,
       optimizeDeps = None,
       worker = None \<rparr>"

definition renderer_config ::
  "env \<Rightarrow> (string list \<Rightarrow> string) \<Rightarrow> string \<Rightarrow> user_config" where
  "renderer_config env path_resolve dirname =
     \<lparr> plugins = [Promise tailwindcss, Plugin (react True)]
                 @ (if isDev env then [Plugin (CodeInspectorPlugin ''vite'')] else [])
                 @ visualizerPlugin env ''renderer'',
       resolve = \<lparr> alias_map = objectLiteral
         [ (''@renderer'', path_resolve [''src/renderer/src'']),
           (''@shared'', path_resolve [''packages/shared'']),
           (''@types'', path_resolve [''src/renderer/src/types'']),
           (''@logger'', path_resolve [''src/renderer/src/services/LoggerService'']),
           (''@cherrystudio/ai-core'', path_resolve [''packages/aiCore/src'']),
           (''@cherrystudio/extension-table-plus'',
              path_resolve [''packages/extension-table-plus/src'']) ] \<rparr>,
       build = \<lparr>
         target = Some ''esnext'',
         rollupOptions = Some \<lparr>
           external = None,
           rollup_output = None,
           input = Some (objectLiteral
             [ (''index'', path_resolve [dirname, ''src/renderer/index.html'']),
               (''miniWindow'', path_resolve [dirname, ''src/renderer/miniWindow.html'']),
               (''selectionToolbar'',
                  path_resolve [dirname, ''src/renderer/selectionToolbar.html'']),
               (''selectionAction'',
                  path_resolve [dirname, ''src/renderer/selectionAction.html'']),
               (''traceWindow'', path_resolve [dirname, ''src/renderer/traceWindow.html'']) ]),
           onwarn = onwarn_body \<rparr>,
         sourcemap = None \<rparr>,
       esbuild = Some (if isProd env then \<lparr> legalComments = Some ''none'' \<rparr>
                       else \<lparr> legalComments = None \<rparr>),
       optimizeDeps = Some \<lparr> noDiscovery = None, exclude = Some [''pyodide''],
                              esbuildOptions = Some \<lparr> esbuild_target = ''esnext'' \<rparr> \<rparr>,
       worker = Some \<lparr> format = ''es'' \<rparr> \<rparr>"

text \<open>The default export (lines 20 to 145).\<close>

definition defineConfig ::
  "env \<Rightarrow> package_json \<Rightarrow> (string list \<Rightarrow> string) \<Rightarrow> string \<Rightarrow> electron_vite_config" where
  "defineConfig env pkg path_resolve dirname =
     \<lparr> main = main_config env pkg path_resolve,
       preload = preload_config env path_resolve,
       renderer = renderer_config env path_resolve dirname \<rparr>"

subsection \<open>Reading a composed profile\<close>

text \<open>
  Source maps are emitted when \<^verbatim>\<open>build.sourcemap\<close> is \<^verbatim>\<open>true\<close>; legal comments are
  stripped when \<^verbatim>\<open>esbuild.legalComments\<close> is \<^verbatim>\<open>'none'\<close>; dependency discovery is
  disabled when \<^verbatim>\<open>optimizeDeps.noDiscovery\<close> is \<^verbatim>\<open>true\<close>.
\<close>

definition sourcemapEnabled :: "user_config \<Rightarrow> bool" where
  "sourcemapEnabled c = (sourcemap (build c) = Some True)"

definition legalCommentsStripped :: "user_config \<Rightarrow> bool" where
  "legalCommentsStripped c =
     (case esbuild c of None \<Rightarrow> False | Some e \<Rightarrow> legalComments e = Some ''none'')"

definition discoveryDisabled :: "user_config \<Rightarrow> bool" where
  "discoveryDisabled c =
     (case optimizeDeps c of None \<Rightarrow> False | Some d \<Rightarrow> noDiscovery d = Some True)"

definition externalOf :: "user_config \<Rightarrow> string list" where
  "externalOf c =
     (case rollupOptions (build c) of None \<Rightarrow> []
      | Some r \<Rightarrow> (case external r of None \<Rightarrow> [] | Some xs \<Rightarrow> xs))"

definition inputOf :: "user_config \<Rightarrow> (string \<times> string) list" where
  "inputOf c =
     (case rollupOptions (build c) of None \<Rightarrow> []
      | Some r \<Rightarrow> (case input r of None \<Rightarrow> [] | Some xs \<Rightarrow> xs))"

section \<open>Properties\<close>

subsection \<open>Helper facts\<close>

lemma toUpperCase_main: "toUpperCase ''main'' = ''MAIN''"
  by code_simp

lemma toUpperCase_renderer: "toUpperCase ''renderer'' = ''RENDERER''"
  by code_simp

lemma visualizerPlugin_main:
  "visualizerPlugin env ''main'' =
     (if truthy (env ''VISUALIZER_MAIN'') then [Plugin (visualizer True)] else [])"
  by (simp add: visualizerPlugin_def toUpperCase_main)

lemma visualizerPlugin_renderer:
  "visualizerPlugin env ''renderer'' =
     (if truthy (env ''VISUALIZER_RENDERER'') then [Plugin (visualizer True)] else [])"
  by (simp add: visualizerPlugin_def toUpperCase_renderer)

lemma isDev_not_isProd: "isDev env \<Longrightarrow> \<not> isProd env"
  by (simp add: isDev_def isProd_def)

lemma main_alias:
  "alias_map (resolve (main_config env pkg r)) =
     [ (''@main'', r [''src/main'']),
       (''@types'', r [''src/renderer/src/types'']),
       (''@shared'', r [''packages/shared'']),
       (''@logger'', r [''src/main/services/LoggerService'']),
       (''@mcp-trace/trace-core'', r [''packages/mcp-trace/trace-core'']),
       (''@mcp-trace/trace-node'', r [''packages/mcp-trace/trace-node'']) ]"
  by (simp add: main_config_def objectLiteral_def)


lemma preload_alias:
  "alias_map (resolve (preload_config env r)) =
     [ (''@shared'', r [''packages/shared'']),
       (''@mcp-trace/trace-core'', r [''packages/mcp-trace/trace-core'']) ]"
  by (simp add: preload_config_def objectLiteral_def)

lemma renderer_alias:
  "alias_map (resolve (renderer_config env r d)) =
     [ (''@renderer'', r [''src/renderer/src'']),
       (''@shared'', r [''packages/shared'']),
       (''@types'', r [''src/renderer/src/types'']),
       (''@logger'', r [''src/renderer/src/services/LoggerService'']),
       (''@cherrystudio/ai-core'', r [''packages/aiCore/src'']),
       (''@cherrystudio/extension-table-plus'', r [''packages/extension-table-plus/src'']) ]"
  by (simp add: renderer_config_def objectLiteral_def)

lemma renderer_input:
  "inputOf (renderer_config env r d) =
     [ (''index'', r [d, ''src/renderer/index.html'']),
       (''miniWindow'', r [d, ''src/renderer/miniWindow.html'']),
       (''selectionToolbar'', r [d, ''src/renderer/selectionToolbar.html'']),
       (''selectionAction'', r [d, ''src/renderer/selectionAction.html'']),
       (''traceWindow'', r [d, ''src/renderer/traceWindow.html'']) ]"
  by (simp add: renderer_config_def inputOf_def objectLiteral_def)

lemma main_external:
  "externalOf (main_config env pkg r) =
     [''bufferutil'', ''utf-8-validate'', ''electron''] @ Object_keys (dependencies pkg)"
  by (simp add: main_config_def externalOf_def)

lemma renderer_plugins:
  "plugins (renderer_config env r d) =
     [Promise tailwindcss, Plugin (react True)]
     @ (if isDev env then [Plugin (CodeInspectorPlugin ''vite'')] else [])
     @ (if truthy (env ''VISUALIZER_RENDERER'') then [Plugin (visualizer True)] else [])"
  by (simp add: renderer_config_def visualizerPlugin_renderer)

lemma main_plugins:
  "plugins (main_config env pkg r) =
     (if truthy (env ''VISUALIZER_MAIN'') then [Plugin (visualizer True)] else [])"
  by (simp add: main_config_def visualizerPlugin_main)

lemma main_stripped: "legalCommentsStripped (main_config env pkg r) = isProd env"
  by (simp add: main_config_def legalCommentsStripped_def)

lemma renderer_stripped: "legalCommentsStripped (renderer_config env r d) = isProd env"
  by (simp add: renderer_config_def legalCommentsStripped_def)

lemma main_sourcemap: "sourcemap (build (main_config env pkg r)) = Some (isDev env)"
  by (simp add: main_config_def)

lemma preload_sourcemap: "sourcemap (build (preload_config env r)) = Some (isDev env)"
  by (simp add: preload_config_def)

lemma renderer_sourcemap: "sourcemap (build (renderer_config env r d)) = None"
  by (simp add: renderer_config_def)

lemma main_discovery: "discoveryDisabled (main_config env pkg r) = isDev env"
  by (simp add: main_config_def discoveryDisabled_def)

lemma config_members:
  "main (defineConfig env pkg r d) = main_config env pkg r"
  "preload (defineConfig env pkg r d) = preload_config env r"
  "renderer (defineConfig env pkg r d) = renderer_config env r d"
  by (simp_all add: defineConfig_def)

subsection \<open>Development mode\<close>

text \<open>
  Claim C1, as written: when \<open>isDev\<close> holds and \<open>isProd\<close> does not, the Host and the UI
  profile both emit source maps and both keep legal comments. The UI half of the
  source-map part fails: the \<^verbatim>\<open>build\<close> object of \<^verbatim>\<open>renderer\<close> (lines 125 to 142) has
  no \<^verbatim>\<open>sourcemap\<close> key, in development as in any other mode.
\<close>

theorem dev_sourcemap_ui_counterexample:
  "isDev [''NODE_ENV'' \<mapsto> ''development''] \<and>
   \<not> isProd [''NODE_ENV'' \<mapsto> ''development''] \<and>
   \<not> sourcemapEnabled (renderer (defineConfig [''NODE_ENV'' \<mapsto> ''development'']
        \<lparr> dependencies = [] \<rparr> concat ''/app''))"
  by (simp add: isDev_def isProd_def sourcemapEnabled_def config_members renderer_sourcemap)

text \<open>
  Claim C1, amended: when \<open>isDev\<close> holds and \<open>isProd\<close> does not, the Host profile emits
  source maps, the UI profile's build options leave \<^verbatim>\<open>sourcemap\<close> unset, and neither
  the Host nor the UI profile strips legal comments.
\<close>

theorem dev_profile_toggles:
  assumes "isDev env" and "\<not> isProd env"
  shows "sourcemapEnabled (main (defineConfig env pkg r d)) \<and>
         sourcemap (build (renderer (defineConfig env pkg r d))) = None \<and>
         \<not> legalCommentsStripped (main (defineConfig env pkg r d)) \<and>
         \<not> legalCommentsStripped (renderer (defineConfig env pkg r d))"
  using assms
  by (simp add: config_members sourcemapEnabled_def main_sourcemap renderer_sourcemap
        main_stripped renderer_stripped)

theorem dev_profile_toggles_witness:
  "isDev [''NODE_ENV'' \<mapsto> ''development''] \<and>
   \<not> isProd [''NODE_ENV'' \<mapsto> ''development''] \<and>
   sourcemapEnabled (main (defineConfig [''NODE_ENV'' \<mapsto> ''development'']
        \<lparr> dependencies = [] \<rparr> concat ''/app'')) \<and>
   sourcemap (build (renderer (defineConfig [''NODE_ENV'' \<mapsto> ''development'']
        \<lparr> dependencies = [] \<rparr> concat ''/app''))) = None \<and>
   \<not> legalCommentsStripped (main (defineConfig [''NODE_ENV'' \<mapsto> ''development'']
        \<lparr> dependencies = [] \<rparr> concat ''/app'')) \<and>
   \<not> legalCommentsStripped (renderer (defineConfig [''NODE_ENV'' \<mapsto> ''development'']
        \<lparr> dependencies = [] \<rparr> concat ''/app''))"
proof -
  have dev: "isDev [''NODE_ENV'' \<mapsto> ''development'']"
    by (simp add: isDev_def)
  have prod: "\<not> isProd [''NODE_ENV'' \<mapsto> ''development'']"
    by (simp add: isProd_def)
  show ?thesis
    using dev prod
      dev_profile_toggles [OF dev prod, of "\<lparr> dependencies = [] \<rparr>" concat "''/app''"]
    by simp
qed

subsection \<open>The external modules of the Host profile\<close>

text \<open>
  Claim C2, as written: for every dependency table the External list is the union of the
  static names and the dependency keys, without a duplicate. The list is a plain
  concatenation (line 44), so a dependency named like a static entry occurs twice.
\<close>

theorem external_duplicate_counterexample:
  "\<not> distinct (externalOf (main (defineConfig Map.empty
        \<lparr> dependencies = [(''electron'', ''38.4.0'')] \<rparr> concat ''/app'')))"
  by (simp add: config_members main_external Object_keys_def)

text \<open>
  Claim C2, amended: the External list is the three static names \<^verbatim>\<open>bufferutil\<close>,
  \<^verbatim>\<open>utf-8-validate\<close>, \<^verbatim>\<open>electron\<close> followed by the keys of the dependency table; its
  elements are exactly the union of the two; and, the keys of an object being pairwise
  different, it is free of duplicates exactly when no dependency carries one of the three
  static names. With the dependencies \<^verbatim>\<open>axios\<close> and \<^verbatim>\<open>zod\<close> it is
  \<^verbatim>\<open>bufferutil, utf-8-validate, electron, axios, zod\<close>.
\<close>

theorem external_union:
  assumes "distinct (Object_keys (dependencies pkg))"
  shows "externalOf (main (defineConfig env pkg r d)) =
           [''bufferutil'', ''utf-8-validate'', ''electron''] @ Object_keys (dependencies pkg) \<and>
         set (externalOf (main (defineConfig env pkg r d))) =
           {''bufferutil'', ''utf-8-validate'', ''electron''}
           \<union> set (Object_keys (dependencies pkg)) \<and>
         (distinct (externalOf (main (defineConfig env pkg r d))) \<longleftrightarrow>
            set (Object_keys (dependencies pkg))
            \<inter> {''bufferutil'', ''utf-8-validate'', ''electron''} = {})"
  using assms by (auto simp add: config_members main_external)

theorem external_union_witness:
  "distinct (Object_keys (dependencies \<lparr> dependencies = [(''axios'', ''1.7.0''), (''zod'', ''3.25.0'')] \<rparr>)) \<and>
   externalOf (main (defineConfig Map.empty
        \<lparr> dependencies = [(''axios'', ''1.7.0''), (''zod'', ''3.25.0'')] \<rparr> concat ''/app'')) =
     [''bufferutil'', ''utf-8-validate'', ''electron'', ''axios'', ''zod''] \<and>
   distinct (externalOf (main (defineConfig Map.empty
        \<lparr> dependencies = [(''axios'', ''1.7.0''), (''zod'', ''3.25.0'')] \<rparr> concat ''/app'')))"
proof -
  have keys: "distinct (Object_keys
      (dependencies \<lparr> dependencies = [(''axios'', ''1.7.0''), (''zod'', ''3.25.0'')] \<rparr>))"
    by (simp add: Object_keys_def)
  show ?thesis
    using keys external_union [OF keys, of Map.empty concat "''/app''"]
    by (simp add: Object_keys_def)
qed

subsection \<open>Production mode\<close>

text \<open>
  Claim C3: in every environment in which \<open>isProd\<close> holds, the Host and the UI profile
  strip legal comments, and the plugin list of the UI profile holds no source-inspection
  plugin, whatever the other variables are.
\<close>

theorem prod_profile_toggles:
  assumes "isProd env"
  shows "legalCommentsStripped (main (defineConfig env pkg r d)) \<and>
         legalCommentsStripped (renderer (defineConfig env pkg r d)) \<and>
         filter isCodeInspector (plugins (renderer (defineConfig env pkg r d))) = []"
proof -
  have "\<not> isDev env"
    using assms isDev_not_isProd by blast
  with assms show ?thesis
    by (simp add: config_members main_stripped renderer_stripped renderer_plugins)
qed

theorem prod_profile_toggles_witness:
  "isProd [''NODE_ENV'' \<mapsto> ''production'', ''VISUALIZER_RENDERER'' \<mapsto> ''1''] \<and>
   legalCommentsStripped (main (defineConfig
      [''NODE_ENV'' \<mapsto> ''production'', ''VISUALIZER_RENDERER'' \<mapsto> ''1'']
      \<lparr> dependencies = [] \<rparr> concat ''/app'')) \<and>
   legalCommentsStripped (renderer (defineConfig
      [''NODE_ENV'' \<mapsto> ''production'', ''VISUALIZER_RENDERER'' \<mapsto> ''1'']
      \<lparr> dependencies = [] \<rparr> concat ''/app'')) \<and>
   filter isCodeInspector (plugins (renderer (defineConfig
      [''NODE_ENV'' \<mapsto> ''production'', ''VISUALIZER_RENDERER'' \<mapsto> ''1'']
      \<lparr> dependencies = [] \<rparr> concat ''/app''))) = []"
proof -
  have prod: "isProd [''NODE_ENV'' \<mapsto> ''production'', ''VISUALIZER_RENDERER'' \<mapsto> ''1'']"
    by (simp add: isProd_def)
  show ?thesis
    by (intro conjI prod prod_profile_toggles [OF prod, THEN conjunct1]
          prod_profile_toggles [OF prod, THEN conjunct2, THEN conjunct1]
          prod_profile_toggles [OF prod, THEN conjunct2, THEN conjunct2])
qed

subsection \<open>Plugins\<close>

text \<open>
  Claim C4: in every environment in which \<open>isDev\<close> holds and \<^verbatim>\<open>VISUALIZER_RENDERER\<close> is
  truthy, the plugin list of the UI profile is, in this order, the CSS utility plugin
  (as the promise of its import), the React compiler plugin with decorators, the
  source-inspection plugin and the bundle-size visualizer.
\<close>

theorem ui_plugin_order:
  assumes "isDev env" and "truthy (env ''VISUALIZER_RENDERER'')"
  shows "plugins (renderer (defineConfig env pkg r d)) =
           [Promise tailwindcss, Plugin (react True),
            Plugin (CodeInspectorPlugin ''vite''), Plugin (visualizer True)]"
  using assms by (simp add: config_members renderer_plugins)

theorem ui_plugin_order_witness:
  "isDev [''NODE_ENV'' \<mapsto> ''development'', ''VISUALIZER_RENDERER'' \<mapsto> ''true''] \<and>
   truthy ([''NODE_ENV'' \<mapsto> ''development'', ''VISUALIZER_RENDERER'' \<mapsto> ''true'']
      ''VISUALIZER_RENDERER'') \<and>
   plugins (renderer (defineConfig
      [''NODE_ENV'' \<mapsto> ''development'', ''VISUALIZER_RENDERER'' \<mapsto> ''true'']
      \<lparr> dependencies = [] \<rparr> concat ''/app'')) =
     [Promise tailwindcss, Plugin (react True),
      Plugin (CodeInspectorPlugin ''vite''), Plugin (visualizer True)]"
proof -
  have dev: "isDev [''NODE_ENV'' \<mapsto> ''development'', ''VISUALIZER_RENDERER'' \<mapsto> ''true'']"
    by (simp add: isDev_def)
  have vis: "truthy ([''NODE_ENV'' \<mapsto> ''development'', ''VISUALIZER_RENDERER'' \<mapsto> ''true'']
      ''VISUALIZER_RENDERER'')"
    by simp
  show ?thesis
    by (intro conjI dev vis ui_plugin_order [OF dev vis])
qed

text \<open>
  Claim C6: the plugin list of the Host profile holds the bundle-size visualizer exactly
  when \<^verbatim>\<open>VISUALIZER_MAIN\<close> is truthy; it is then the one-element list, and empty
  otherwise. An absent variable takes the empty branch. The composition has no failing
  branch: \<open>defineConfig\<close> yields a configuration for every environment.
\<close>

theorem host_visualizer:
  "(Plugin (visualizer True) \<in> set (plugins (main (defineConfig env pkg r d)))
      \<longleftrightarrow> truthy (env ''VISUALIZER_MAIN'')) \<and>
   (truthy (env ''VISUALIZER_MAIN'') \<longrightarrow>
      plugins (main (defineConfig env pkg r d)) = [Plugin (visualizer True)]) \<and>
   (\<not> truthy (env ''VISUALIZER_MAIN'') \<longrightarrow>
      plugins (main (defineConfig env pkg r d)) = []) \<and>
   (env ''VISUALIZER_MAIN'' = None \<longrightarrow>
      plugins (main (defineConfig env pkg r d)) = [])"
  by (simp add: config_members main_plugins)

theorem host_visualizer_witness:
  "truthy ([''VISUALIZER_MAIN'' \<mapsto> ''true''] ''VISUALIZER_MAIN'') \<and>
   plugins (main (defineConfig [''VISUALIZER_MAIN'' \<mapsto> ''true'']
      \<lparr> dependencies = [] \<rparr> concat ''/app'')) = [Plugin (visualizer True)] \<and>
   [''NODE_ENV'' \<mapsto> ''production''] ''VISUALIZER_MAIN'' = None \<and>
   plugins (main (defineConfig [''NODE_ENV'' \<mapsto> ''production'']
      \<lparr> dependencies = [] \<rparr> concat ''/app'')) = []"
proof -
  have on: "truthy ([''VISUALIZER_MAIN'' \<mapsto> ''true''] ''VISUALIZER_MAIN'')"
    by simp
  have absent: "[''NODE_ENV'' \<mapsto> ''production''] ''VISUALIZER_MAIN'' = None"
    by simp
  show ?thesis
    using on absent
      host_visualizer [where env = "[''VISUALIZER_MAIN'' \<mapsto> ''true'']"
        and pkg = "\<lparr> dependencies = [] \<rparr>" and r = concat and d = "''/app''"]
      host_visualizer [where env = "[''NODE_ENV'' \<mapsto> ''production'']"
        and pkg = "\<lparr> dependencies = [] \<rparr>" and r = concat and d = "''/app''"]
    by blast
qed

subsection \<open>Entries of the UI profile\<close>

text \<open>
  Claim C5: in every environment the \<^verbatim>\<open>input\<close> object of the UI profile has exactly the
  five pages \<^verbatim>\<open>index\<close>, \<^verbatim>\<open>miniWindow\<close>, \<^verbatim>\<open>selectionToolbar\<close>, \<^verbatim>\<open>selectionAction\<close>
  and \<^verbatim>\<open>traceWindow\<close>, each mapped to its file under \<^verbatim>\<open>src/renderer\<close> resolved against
  \<^verbatim>\<open>__dirname\<close>; no variable of the environment occurs in it.
\<close>

theorem ui_entry_set:
  "inputOf (renderer (defineConfig env pkg r d)) =
     [ (''index'', r [d, ''src/renderer/index.html'']),
       (''miniWindow'', r [d, ''src/renderer/miniWindow.html'']),
       (''selectionToolbar'', r [d, ''src/renderer/selectionToolbar.html'']),
       (''selectionAction'', r [d, ''src/renderer/selectionAction.html'']),
       (''traceWindow'', r [d, ''src/renderer/traceWindow.html'']) ] \<and>
   length (inputOf (renderer (defineConfig env pkg r d))) = 5 \<and>
   distinct (map fst (inputOf (renderer (defineConfig env pkg r d)))) \<and>
   set (map fst (inputOf (renderer (defineConfig env pkg r d)))) =
     {''index'', ''miniWindow'', ''selectionToolbar'', ''selectionAction'', ''traceWindow''}"
  by (simp add: config_members renderer_input)

theorem ui_entry_set_witness:
  "inputOf (renderer (defineConfig [''NODE_ENV'' \<mapsto> ''production'']
      \<lparr> dependencies = [] \<rparr> concat ''/app/'')) =
     [ (''index'', ''/app/src/renderer/index.html''),
       (''miniWindow'', ''/app/src/renderer/miniWindow.html''),
       (''selectionToolbar'', ''/app/src/renderer/selectionToolbar.html''),
       (''selectionAction'', ''/app/src/renderer/selectionAction.html''),
       (''traceWindow'', ''/app/src/renderer/traceWindow.html'') ]"
  using ui_entry_set [of "[''NODE_ENV'' \<mapsto> ''production'']" "\<lparr> dependencies = [] \<rparr>"
      concat "''/app/''"]
  by simp

subsection \<open>The mode flags\<close>

text \<open>
  Claim C9: in no environment are \<open>isDev\<close> and \<open>isProd\<close> both true, both being
  comparisons of the one variable \<^verbatim>\<open>NODE_ENV\<close> with different strings.
\<close>

theorem mode_flags_exclusive: "\<not> (isDev env \<and> isProd env)"
  by (simp add: isDev_def isProd_def)

theorem mode_flags_exclusive_witness:
  "isDev [''NODE_ENV'' \<mapsto> ''development''] \<and> \<not> isProd [''NODE_ENV'' \<mapsto> ''development''] \<and>
   isProd [''NODE_ENV'' \<mapsto> ''production''] \<and> \<not> isDev [''NODE_ENV'' \<mapsto> ''production'']"
proof -
  have dev: "isDev [''NODE_ENV'' \<mapsto> ''development'']"
    by (simp add: isDev_def)
  have prod: "isProd [''NODE_ENV'' \<mapsto> ''production'']"
    by (simp add: isProd_def)
  show ?thesis
    using dev prod
      mode_flags_exclusive [of "[''NODE_ENV'' \<mapsto> ''development'']"]
      mode_flags_exclusive [of "[''NODE_ENV'' \<mapsto> ''production'']"]
    by blast
qed

text \<open>
  Claim C10: when \<^verbatim>\<open>NODE_ENV\<close> is absent or is neither \<^verbatim>\<open>development\<close> nor
  \<^verbatim>\<open>production\<close>, the configuration is still produced and every toggle is off:
  \<^verbatim>\<open>sourcemap\<close> is \<^verbatim>\<open>false\<close> for the Host and the Bridge, the Host and the UI keep
  legal comments, the UI has no source-inspection plugin, and dependency discovery of
  the Host is not disabled.
\<close>

theorem other_mode_all_off:
  assumes "env ''NODE_ENV'' \<noteq> Some ''development''"
    and "env ''NODE_ENV'' \<noteq> Some ''production''"
  shows "sourcemap (build (main (defineConfig env pkg r d))) = Some False \<and>
         sourcemap (build (preload (defineConfig env pkg r d))) = Some False \<and>
         \<not> sourcemapEnabled (main (defineConfig env pkg r d)) \<and>
         \<not> sourcemapEnabled (preload (defineConfig env pkg r d)) \<and>
         \<not> legalCommentsStripped (main (defineConfig env pkg r d)) \<and>
         \<not> legalCommentsStripped (renderer (defineConfig env pkg r d)) \<and>
         filter isCodeInspector (plugins (renderer (defineConfig env pkg r d))) = [] \<and>
         \<not> discoveryDisabled (main (defineConfig env pkg r d))"
proof -
  have "\<not> isDev env" and "\<not> isProd env"
    using assms by (simp_all add: isDev_def isProd_def)
  then show ?thesis
    by (simp add: config_members sourcemapEnabled_def main_sourcemap preload_sourcemap
          main_stripped renderer_stripped renderer_plugins main_discovery)
qed

theorem other_mode_all_off_witness:
  "Map.empty ''NODE_ENV'' \<noteq> Some ''development'' \<and>
   Map.empty ''NODE_ENV'' \<noteq> Some ''production'' \<and>
   sourcemap (build (main (defineConfig Map.empty \<lparr> dependencies = [] \<rparr> concat ''/app''))) = Some False \<and>
   sourcemap (build (preload (defineConfig Map.empty \<lparr> dependencies = [] \<rparr> concat ''/app''))) = Some False \<and>
   \<not> sourcemapEnabled (main (defineConfig Map.empty \<lparr> dependencies = [] \<rparr> concat ''/app'')) \<and>
   \<not> sourcemapEnabled (preload (defineConfig Map.empty \<lparr> dependencies = [] \<rparr> concat ''/app'')) \<and>
   \<not> legalCommentsStripped (main (defineConfig Map.empty \<lparr> dependencies = [] \<rparr> concat ''/app'')) \<and>
   \<not> legalCommentsStripped (renderer (defineConfig Map.empty \<lparr> dependencies = [] \<rparr> concat ''/app'')) \<and>
   filter isCodeInspector
     (plugins (renderer (defineConfig Map.empty \<lparr> dependencies = [] \<rparr> concat ''/app''))) = [] \<and>
   \<not> discoveryDisabled (main (defineConfig Map.empty \<lparr> dependencies = [] \<rparr> concat ''/app''))"
proof -
  have a: "(Map.empty :: env) ''NODE_ENV'' \<noteq> Some ''development''"
    by simp
  have b: "(Map.empty :: env) ''NODE_ENV'' \<noteq> Some ''production''"
    by simp
  show ?thesis
    using a b other_mode_all_off [OF a b, of "\<lparr> dependencies = [] \<rparr>" concat "''/app''"]
    by blast
qed

end
